theory Spec2Isabelle
  imports Complex_Main
begin

section \<open>Numeric model\<close>

text \<open>
  The encoders of \<^verbatim>\<open>lib/utils/anchor_encoder.py\<close> are modelled in exact real
  arithmetic: a finite floating-point number is a \<^typ>\<open>real\<close> and the operations do
  not round. The angle encoder is modelled a second time in float64, with the rounding
  of every operation, for the properties that rounding decides.
  Python exceptions are values of the type \<open>error\<close>.
\<close>

datatype error = AssertionError | ZeroDivisionError | OverflowError

text \<open>
  \<^verbatim>\<open>np.mod(x, m)\<close> and Python's \<^verbatim>\<open>x % m\<close> on floats: the remainder of the floored
  division, which has the sign of the divisor.
\<close>

definition np_mod :: "real \<Rightarrow> real \<Rightarrow> real" where
  "np_mod x m = x - of_int \<lfloor>x / m\<rfloor> * m"

text \<open>\<^verbatim>\<open>x.astype(np.int)\<close>: conversion of a float to an integer truncates toward zero.\<close>

definition astype_int :: "real \<Rightarrow> int" where
  "astype_int x = (if 0 \<le> x then \<lfloor>x\<rfloor> else \<lceil>x\<rceil>)"

text \<open>
  A float that a division or a logarithm produces may be infinite or not a number:
  division by zero and the logarithm of a non-positive number do not raise, they return
  \<^verbatim>\<open>inf\<close> or \<^verbatim>\<open>nan\<close>. The value \<open>NonFinite\<close> stands for all of these.
\<close>

datatype fval = Fin real | NonFinite

definition fdiv :: "real \<Rightarrow> real \<Rightarrow> fval" where
  "fdiv x y = (if y = 0 then NonFinite else Fin (x / y))"

definition flog :: "fval \<Rightarrow> fval" where
  "flog v = (case v of Fin x \<Rightarrow> if 0 < x then Fin (ln x) else NonFinite
                     | NonFinite \<Rightarrow> NonFinite)"

section \<open>Encode Angle\<close>

text \<open>
  \<^verbatim>\<open>encode_angle2class_np(angle, num_class)\<close>, lines 11 to 21, on one angle (a 0-d
  array; on an array the same computation runs on every element), in exact arithmetic
  on reals and unbounded integers. The assertion of line 13 is a branch of the model,
  and so is the \<^verbatim>\<open>ZeroDivisionError\<close> that the Python float division
  \<^verbatim>\<open>2*np.pi/float(num_class)\<close> of line 14 raises for \<^verbatim>\<open>num_class = 0\<close>.
\<close>

definition encode_angle2class_np :: "real \<Rightarrow> int \<Rightarrow> error + (int \<times> real)" where
  "encode_angle2class_np angle0 num_class =
    (let angle = np_mod angle0 (2 * pi) in
     if \<not> (angle \<ge> 0 \<and> angle \<le> 2 * pi) then Inl AssertionError
     else if num_class = 0 then Inl ZeroDivisionError
     else
       let angle_per_class = 2 * pi / of_int num_class;
           shifted_angle = np_mod (angle + angle_per_class / 2) (2 * pi);
           class_id = astype_int (shifted_angle / angle_per_class);
           residual_angle = shifted_angle
             - (of_int class_id * angle_per_class + angle_per_class / 2);
           residual_angle' = residual_angle / (2 * pi / of_int num_class)
       in Inr (class_id, residual_angle'))"

text \<open>
  The value of the local variable \<^verbatim>\<open>shifted_angle\<close> (line 15) as a function of the
  arguments.
\<close>

definition shifted_angle :: "real \<Rightarrow> int \<Rightarrow> real" where
  "shifted_angle angle0 num_class =
     np_mod (np_mod angle0 (2 * pi) + 2 * pi / of_int num_class / 2) (2 * pi)"

section \<open>Tensors\<close>

text \<open>
  The box encoders take tensors of shape \<^verbatim>\<open>[bs, points_num, 3]\<close> and work box by box.
  Such a tensor is a family of 3-vectors indexed by the position \<open>i\<close> of the box (its
  batch and point index); a tensor of shape \<^verbatim>\<open>[bs, points_num]\<close> is a family of
  scalars over the same positions. The four arguments of an encoder have the same
  shape, as the docstrings say, hence the same index type: broadcasting of unequal
  shapes is outside the model. The axis of length 1 that \<^verbatim>\<open>np.split\<close> and
  \<^verbatim>\<open>keepdims=True\<close> keep is identified with the scalar it holds.
\<close>

type_synonym 'a vec3 = "'a \<times> 'a \<times> 'a"
type_synonym ('i, 'a) tensor2 = "'i \<Rightarrow> 'a"
type_synonym ('i, 'a) tensor3 = "'i \<Rightarrow> 'a vec3"

text \<open>Elementwise \<^verbatim>\<open>-\<close>, \<^verbatim>\<open>/\<close> and \<^verbatim>\<open>log\<close> on \<^verbatim>\<open>[bs, points_num]\<close>.\<close>

definition tsub :: "('i, real) tensor2 \<Rightarrow> ('i, real) tensor2 \<Rightarrow> ('i, real) tensor2" where
  "tsub a b = (\<lambda>i. a i - b i)"

definition tdiv :: "('i, real) tensor2 \<Rightarrow> ('i, real) tensor2 \<Rightarrow> ('i, fval) tensor2" where
  "tdiv a b = (\<lambda>i. fdiv (a i) (b i))"

definition tlog :: "('i, fval) tensor2 \<Rightarrow> ('i, fval) tensor2" where
  "tlog a = (\<lambda>i. flog (a i))"

text \<open>Elementwise \<^verbatim>\<open>-\<close> and \<^verbatim>\<open>/\<close> on \<^verbatim>\<open>[bs, points_num, 3]\<close>, and \<^verbatim>\<open>t / 2.\<close>.\<close>

definition vmap2 :: "('a \<Rightarrow> 'b \<Rightarrow> 'c) \<Rightarrow> 'a vec3 \<Rightarrow> 'b vec3 \<Rightarrow> 'c vec3" where
  "vmap2 f u v = (case u of (a, b, c) \<Rightarrow> case v of (x, y, z) \<Rightarrow> (f a x, f b y, f c z))"

definition tsub3 :: "('i, real) tensor3 \<Rightarrow> ('i, real) tensor3 \<Rightarrow> ('i, real) tensor3" where
  "tsub3 s t = (\<lambda>i. vmap2 (-) (s i) (t i))"

definition tdiv3 :: "('i, real) tensor3 \<Rightarrow> ('i, real) tensor3 \<Rightarrow> ('i, fval) tensor3" where
  "tdiv3 s t = (\<lambda>i. vmap2 fdiv (s i) (t i))"

definition thalf3 :: "('i, real) tensor3 \<Rightarrow> ('i, real) tensor3" where
  "thalf3 t = (\<lambda>i. case t i of (a, b, c) \<Rightarrow> (a / 2, b / 2, c / 2))"

text \<open>
  \<^verbatim>\<open>tf.unstack(t, axis=-1)\<close>, \<^verbatim>\<open>tf.stack([..], axis=-1)\<close> (also \<^verbatim>\<open>np.stack\<close>) and
  \<^verbatim>\<open>tf.norm(t, axis=-1)\<close>, the Euclidean norm along the last axis.
\<close>

definition unstack ::
  "('i, 'a) tensor3 \<Rightarrow> ('i, 'a) tensor2 \<times> ('i, 'a) tensor2 \<times> ('i, 'a) tensor2" where
  "unstack t = (\<lambda>i. fst (t i), \<lambda>i. fst (snd (t i)), \<lambda>i. snd (snd (t i)))"

definition stack2 :: "('i, 'a) tensor2 \<Rightarrow> ('i, 'a) tensor2 \<Rightarrow> 'i \<Rightarrow> 'a \<times> 'a" where
  "stack2 a b = (\<lambda>i. (a i, b i))"

definition stack3 ::
  "('i, 'a) tensor2 \<Rightarrow> ('i, 'a) tensor2 \<Rightarrow> ('i, 'a) tensor2 \<Rightarrow> ('i, 'a) tensor3" where
  "stack3 a b c = (\<lambda>i. (a i, b i, c i))"

definition tnorm :: "('i \<Rightarrow> real \<times> real) \<Rightarrow> ('i, real) tensor2" where
  "tnorm t = (\<lambda>i. case t i of (x, y) \<Rightarrow> sqrt (x\<^sup>2 + y\<^sup>2))"

text \<open>
  \<^verbatim>\<open>np.split(t, 3, axis=-1)\<close>, \<^verbatim>\<open>np.concatenate([..], axis=-1)\<close> and
  \<^verbatim>\<open>np.linalg.norm(t, axis=-1, keepdims=True)\<close>.
\<close>

definition split3 ::
  "('i, 'a) tensor3 \<Rightarrow> ('i, 'a) tensor2 \<times> ('i, 'a) tensor2 \<times> ('i, 'a) tensor2" where
  "split3 t = (\<lambda>i. fst (t i), \<lambda>i. fst (snd (t i)), \<lambda>i. snd (snd (t i)))"

definition concatenate2 :: "('i, 'a) tensor2 \<Rightarrow> ('i, 'a) tensor2 \<Rightarrow> 'i \<Rightarrow> 'a \<times> 'a" where
  "concatenate2 a b = (\<lambda>i. (a i, b i))"

definition concatenate3 ::
  "('i, 'a) tensor2 \<Rightarrow> ('i, 'a) tensor2 \<Rightarrow> ('i, 'a) tensor2 \<Rightarrow> ('i, 'a) tensor3" where
  "concatenate3 a b c = (\<lambda>i. (a i, b i, c i))"

definition linalg_norm :: "('i \<Rightarrow> real \<times> real) \<Rightarrow> ('i, real) tensor2" where
  "linalg_norm t = (\<lambda>i. case t i of (x, y) \<Rightarrow> sqrt (x\<^sup>2 + y\<^sup>2))"

text \<open>\<^verbatim>\<open>t[:, :, 1]\<close> and \<^verbatim>\<open>zeros_like\<close>.\<close>

definition index1 :: "('i, 'a) tensor3 \<Rightarrow> ('i, 'a) tensor2" where
  "index1 t = (\<lambda>i. fst (snd (t i)))"

definition zeros_like :: "('i, real) tensor2 \<Rightarrow> ('i, real) tensor2" where
  "zeros_like t = (\<lambda>i. 0)"

section \<open>Log-Anchor\<close>

text \<open>\<^verbatim>\<open>encode_log_anchor\<close> (TensorFlow), lines 29 to 61.\<close>

definition encode_log_anchor ::
  "('i, real) tensor3 \<Rightarrow> ('i, real) tensor3 \<Rightarrow> ('i, real) tensor3 \<Rightarrow> ('i, real) tensor3
     \<Rightarrow> ('i, fval) tensor3 \<times> ('i, fval) tensor3" where
  "encode_log_anchor gt_ctr gt_offset anchor_ctr anchor_offset =
    (case unstack gt_offset of (gt_l, gt_h, gt_w) \<Rightarrow>
     case unstack anchor_offset of (anchor_l, anchor_h, anchor_w) \<Rightarrow>
     let anchor_d = stack2 anchor_l anchor_w;
         anchor_d = tnorm anchor_d
     in
     case unstack gt_ctr of (gt_x, gt_y, gt_z) \<Rightarrow>
     case unstack anchor_ctr of (anchor_x, anchor_y, anchor_z) \<Rightarrow>
     let encode_x = tdiv (tsub gt_x anchor_x) anchor_d;
         encode_y = tdiv (tsub gt_y anchor_y) anchor_h;
         encode_z = tdiv (tsub gt_z anchor_z) anchor_d;
         encode_l = tlog (tdiv gt_l anchor_l);
         encode_h = tlog (tdiv gt_h anchor_h);
         encode_w = tlog (tdiv gt_w anchor_w);
         encoded_ctr = stack3 encode_x encode_y encode_z;
         encoded_offset = stack3 encode_l encode_h encode_w
     in (encoded_ctr, encoded_offset))"

text \<open>\<^verbatim>\<open>encode_log_anchor_np\<close> (NumPy), lines 64 to 96.\<close>

definition encode_log_anchor_np ::
  "('i, real) tensor3 \<Rightarrow> ('i, real) tensor3 \<Rightarrow> ('i, real) tensor3 \<Rightarrow> ('i, real) tensor3
     \<Rightarrow> ('i, fval) tensor3 \<times> ('i, fval) tensor3" where
  "encode_log_anchor_np gt_ctr gt_offset anchor_ctr anchor_offset =
    (case split3 gt_offset of (gt_l, gt_h, gt_w) \<Rightarrow>
     case split3 anchor_offset of (anchor_l, anchor_h, anchor_w) \<Rightarrow>
     let anchor_d = concatenate2 anchor_l anchor_w;
         anchor_d = linalg_norm anchor_d
     in
     case split3 gt_ctr of (gt_x, gt_y, gt_z) \<Rightarrow>
     case split3 anchor_ctr of (anchor_x, anchor_y, anchor_z) \<Rightarrow>
     let encode_x = tdiv (tsub gt_x anchor_x) anchor_d;
         encode_y = tdiv (tsub gt_y anchor_y) anchor_h;
         encode_z = tdiv (tsub gt_z anchor_z) anchor_d;
         encode_l = tlog (tdiv gt_l anchor_l);
         encode_h = tlog (tdiv gt_h anchor_h);
         encode_w = tlog (tdiv gt_w anchor_w);
         encoded_ctr = concatenate3 encode_x encode_y encode_z;
         encoded_offset = concatenate3 encode_l encode_h encode_w
     in (encoded_ctr, encoded_offset))"

section \<open>Dist-Anchor\<close>

text \<open>\<^verbatim>\<open>encode_dist_anchor\<close>, lines 102 to 116.\<close>

definition encode_dist_anchor ::
  "('i, real) tensor3 \<Rightarrow> ('i, real) tensor3 \<Rightarrow> ('i, real) tensor3 \<Rightarrow> ('i, real) tensor3
     \<Rightarrow> ('i, real) tensor3 \<times> ('i, fval) tensor3" where
  "encode_dist_anchor gt_ctr gt_offset anchor_ctr anchor_offset =
    (let encoded_ctr = tsub3 gt_ctr anchor_ctr;
         encoded_offset = tdiv3 (tsub3 gt_offset anchor_offset) anchor_offset
     in (encoded_ctr, encoded_offset))"

section \<open>Dist-Anchor-Free\<close>

text \<open>
  \<^verbatim>\<open>encode_dist_anchor_free\<close> (TensorFlow), lines 123 to 145, and
  \<^verbatim>\<open>encode_dist_anchor_free_np\<close> (NumPy), lines 148 to 170. The optional argument
  \<^verbatim>\<open>anchor_offset=None\<close> is an \<open>option\<close>.
\<close>

definition encode_dist_anchor_free ::
  "('i, real) tensor3 \<Rightarrow> ('i, real) tensor3 \<Rightarrow> ('i, real) tensor3
     \<Rightarrow> ('i, real) tensor3 option \<Rightarrow> ('i, real) tensor3 \<times> ('i, real) tensor3" where
  "encode_dist_anchor_free gt_ctr gt_offset anchor_ctr anchor_offset =
    (let target_ctr_half = thalf3 gt_offset;
         padding_half_height = index1 target_ctr_half;
         padding_zeros = zeros_like padding_half_height;
         padding_translate = stack3 padding_zeros padding_half_height padding_zeros;
         encoded_ctr = tsub3 gt_ctr padding_translate;
         encoded_ctr = tsub3 encoded_ctr anchor_ctr
     in (encoded_ctr, target_ctr_half))"

definition encode_dist_anchor_free_np ::
  "('i, real) tensor3 \<Rightarrow> ('i, real) tensor3 \<Rightarrow> ('i, real) tensor3
     \<Rightarrow> ('i, real) tensor3 option \<Rightarrow> ('i, real) tensor3 \<times> ('i, real) tensor3" where
  "encode_dist_anchor_free_np gt_ctr gt_offset anchor_ctr anchor_offset =
    (let target_ctr_half = thalf3 gt_offset;
         padding_half_height = index1 target_ctr_half;
         padding_zeros = zeros_like padding_half_height;
         padding_translate = stack3 padding_zeros padding_half_height padding_zeros;
         encoded_ctr = tsub3 gt_ctr padding_translate;
         encoded_ctr = tsub3 encoded_ctr anchor_ctr
     in (encoded_ctr, target_ctr_half))"

section \<open>Encode Angle in float64\<close>

text \<open>
  The same function with the arithmetic the code runs on: every operation of lines 12
  to 20 is an IEEE 754 binary64 operation, rounded to nearest with ties to even. A
  finite double is the real number it denotes (signed zeros are not distinguished; no
  operation below divides by zero).

  \<open>np_pi\<close> is the double \<^verbatim>\<open>np.pi\<close>. \<open>rne\<close> rounds a real to the nearest integer,
  ties to even. \<open>rnd64\<close> rounds a real to the nearest double, on the grid of the
  binade of its argument (53 significant bits) and on the subnormal grid \<open>2\<^sup>-\<^sup>1\<^sup>0\<^sup>7\<^sup>4\<close>
  below \<open>2\<^sup>-\<^sup>1\<^sup>0\<^sup>2\<^sup>2\<close>; \<open>round64\<close> is \<open>rnd64\<close> with overflow, which gives an infinity.
\<close>

definition np_pi :: real where
  "np_pi = 884279719003555 / 2 ^ 48"

definition rne :: "real \<Rightarrow> int" where
  "rne x = (let f = \<lfloor>x\<rfloor>; d = x - of_int f
            in if d < 1 / 2 then f else if 1 / 2 < d then f + 1
               else if even f then f else f + 1)"

definition rnd64 :: "real \<Rightarrow> real" where
  "rnd64 x = (if x = 0 then 0
              else let e = max (\<lfloor>log 2 \<bar>x\<bar>\<rfloor> - 52) (- 1074)
                   in of_int (rne (x / 2 powi e)) * 2 powi e)"

definition round64 :: "real \<Rightarrow> fval" where
  "round64 x = (if 2 ^ 1024 \<le> \<bar>rnd64 x\<bar> then NonFinite else Fin (rnd64 x))"

text \<open>
  The C function \<^verbatim>\<open>fmod\<close>, whose result is exact, and the remainder that \<^verbatim>\<open>np.mod\<close>
  and \<^verbatim>\<open>%\<close> compute from it for a nonzero divisor: a nonzero remainder of the other
  sign than the divisor is moved by one divisor, and that addition rounds.
\<close>

definition rtrunc :: "real \<Rightarrow> int" where
  "rtrunc x = (if 0 \<le> x then \<lfloor>x\<rfloor> else \<lceil>x\<rceil>)"

definition fmod :: "real \<Rightarrow> real \<Rightarrow> real" where
  "fmod x y = x - y * of_int (rtrunc (x / y))"

definition np_mod64 :: "real \<Rightarrow> real \<Rightarrow> real" where
  "np_mod64 a b =
     (let r = fmod a b
      in if r \<noteq> 0 \<and> ((b < 0) \<noteq> (r < 0)) then rnd64 (r + b) else r)"

text \<open>
  \<^verbatim>\<open>x.astype(np.int)\<close> on a 64-bit Linux build: truncation toward zero to a 64-bit
  integer; an infinity or a value out of range converts to \<open>-2\<^sup>6\<^sup>3\<close>.
\<close>

definition astype_int64 :: "fval \<Rightarrow> int" where
  "astype_int64 v =
     (case v of
        Fin x \<Rightarrow> if - (2 ^ 63) \<le> rtrunc x \<and> rtrunc x < 2 ^ 63 then rtrunc x
                 else - (2 ^ 63)
      | NonFinite \<Rightarrow> - (2 ^ 63))"

text \<open>
  \<^verbatim>\<open>encode_angle2class_np\<close> on a double \<open>angle0\<close>. \<^verbatim>\<open>float(num_class)\<close> rounds the
  integer and raises \<^verbatim>\<open>OverflowError\<close> where the rounded value is not finite. The
  two quotients by \<^verbatim>\<open>angle_per_class\<close> can overflow and are computed with
  \<open>round64\<close>; every other intermediate result is bounded by \<open>2\<^sup>6\<^sup>6\<close> in absolute value
  (\<open>\<bar>n\<bar> \<ge> 1\<close>, so \<^verbatim>\<open>angle_per_class\<close> is at most \<open>2\<pi>\<close>, and \<open>\<bar>class_id\<bar> \<le> 2\<^sup>6\<^sup>3\<close>) and is
  computed with \<open>rnd64\<close>.
\<close>

definition encode_angle2class_np_f64 :: "real \<Rightarrow> int \<Rightarrow> error + (int \<times> fval)" where
  "encode_angle2class_np_f64 angle0 num_class =
    (let angle = np_mod64 angle0 (2 * np_pi) in
     if \<not> (0 \<le> angle \<and> angle \<le> 2 * np_pi) then Inl AssertionError
     else case round64 (of_int num_class) of
       NonFinite \<Rightarrow> Inl OverflowError
     | Fin n \<Rightarrow>
       if n = 0 then Inl ZeroDivisionError
       else
         let angle_per_class = rnd64 (2 * np_pi / n);
             shifted_angle =
               np_mod64 (rnd64 (angle + rnd64 (angle_per_class / 2))) (2 * np_pi);
             class_id = astype_int64 (round64 (shifted_angle / angle_per_class));
             residual_angle = rnd64 (shifted_angle
               - rnd64 (rnd64 (rnd64 (of_int class_id) * angle_per_class)
                        + rnd64 (angle_per_class / 2)));
             residual_angle' = round64 (residual_angle / rnd64 (2 * np_pi / n))
         in Inr (class_id, residual_angle'))"

section \<open>Properties of the modulo\<close>

lemma np_mod_nonneg:
  assumes "0 < m"
  shows "0 \<le> np_mod x m"
proof -
  have "of_int \<lfloor>x / m\<rfloor> \<le> x / m" by simp
  then have "of_int \<lfloor>x / m\<rfloor> * m \<le> x"
    using assms pos_le_divide_eq [of m "of_int \<lfloor>x / m\<rfloor>" x] by blast
  then show ?thesis by (simp add: np_mod_def)
qed

lemma np_mod_less:
  assumes "0 < m"
  shows "np_mod x m < m"
proof -
  have "x / m < of_int \<lfloor>x / m\<rfloor> + 1" by linarith
  then have "x < (of_int \<lfloor>x / m\<rfloor> + 1) * m"
    using assms pos_divide_less_eq [of m x "of_int \<lfloor>x / m\<rfloor> + 1"] by blast
  then show ?thesis by (simp add: np_mod_def algebra_simps)
qed


lemma np_mod_small:
  assumes "0 \<le> x" and "x < m"
  shows "np_mod x m = x"
proof -
  from assms have "0 < m" by linarith
  with assms have "0 \<le> x / m" and "x / m < 1" by simp_all
  then have "\<lfloor>x / m\<rfloor> = 0" by linarith
  then show ?thesis by (simp add: np_mod_def)
qed

lemma np_mod_zero: "np_mod 0 m = 0"
  by (simp add: np_mod_def)

lemma np_mod_self: "m \<noteq> 0 \<Longrightarrow> np_mod m m = 0"
  by (simp add: np_mod_def)

section \<open>The angle encoder in closed form\<close>

lemma astype_int_nonneg: "0 \<le> x \<Longrightarrow> astype_int x = \<lfloor>x\<rfloor>"
  by (simp add: astype_int_def)

lemma shifted_angle_bounds:
  "0 \<le> shifted_angle a n" "shifted_angle a n < 2 * pi"
  unfolding shifted_angle_def by (simp_all add: np_mod_nonneg np_mod_less)

text \<open>
  For a positive number of classes the function returns: the class is the floor of the
  shifted angle in units of the bin width, and the residual is the fractional part of
  that quotient minus one half.
\<close>

lemma encode_angle2class_np_eq:
  assumes "1 \<le> num_class"
  shows "encode_angle2class_np angle0 num_class =
           Inr (\<lfloor>shifted_angle angle0 num_class / (2 * pi / of_int num_class)\<rfloor>,
                shifted_angle angle0 num_class / (2 * pi / of_int num_class)
                  - of_int \<lfloor>shifted_angle angle0 num_class / (2 * pi / of_int num_class)\<rfloor>
                  - 1 / 2)"
proof -
  let ?apc = "2 * pi / real_of_int num_class"
  let ?s = "shifted_angle angle0 num_class"
  have n: "0 < real_of_int num_class" using assms by simp
  have apc: "0 < ?apc" using n by simp
  have a1: "0 \<le> np_mod angle0 (2 * pi)" by (simp add: np_mod_nonneg)
  have a2: "np_mod angle0 (2 * pi) \<le> 2 * pi"
    using np_mod_less [of "2 * pi" angle0] by simp
  have q: "0 \<le> ?s / ?apc"
    using shifted_angle_bounds(1) [of angle0 num_class] apc by (intro divide_nonneg_pos)
  have r: "(?s - (of_int \<lfloor>?s / ?apc\<rfloor> * ?apc + ?apc / 2)) / ?apc
             = ?s / ?apc - of_int \<lfloor>?s / ?apc\<rfloor> - 1 / 2"
    using apc n by (simp add: field_simps)
  from assms have nz: "num_class \<noteq> 0" by simp
  have e: "encode_angle2class_np angle0 num_class =
      Inr (astype_int (?s / ?apc),
           (?s - (of_int (astype_int (?s / ?apc)) * ?apc + ?apc / 2)) / ?apc)"
    unfolding encode_angle2class_np_def Let_def shifted_angle_def
    by (simp only: a1 a2 nz simp_thms if_False)
  show ?thesis
    unfolding e astype_int_nonneg [OF q] r ..
qed

lemma shifted_angle_0_4: "shifted_angle 0 4 = pi / 4"
proof -
  have "np_mod (pi / 4) (2 * pi) = pi / 4"
    by (rule np_mod_small) (use pi_gt_zero in simp_all)
  then show ?thesis by (simp add: shifted_angle_def np_mod_zero)
qed

lemma np_mod_pi: "np_mod pi (2 * pi) = pi"
  by (rule np_mod_small) (use pi_gt_zero in simp_all)

lemma shifted_angle_pi_4: "shifted_angle pi 4 = 5 * pi / 4"
proof -
  have "np_mod (5 * pi / 4) (2 * pi) = 5 * pi / 4"
    by (rule np_mod_small) (use pi_gt_zero in simp_all)
  then show ?thesis by (simp add: shifted_angle_def np_mod_pi)
qed

lemma shifted_angle_pi_1: "shifted_angle pi 1 = 0"
proof -
  have "np_mod (2 * pi) (2 * pi) = 0" by (rule np_mod_self) simp
  then show ?thesis by (simp add: shifted_angle_def np_mod_pi)
qed

lemma shifted_angle_7pi4_4: "shifted_angle (7 * pi / 4) 4 = 0"
proof -
  have a: "np_mod (7 * pi / 4) (2 * pi) = 7 * pi / 4"
    by (rule np_mod_small) (use pi_gt_zero in simp_all)
  have "np_mod (2 * pi) (2 * pi) = 0" by (rule np_mod_self) simp
  then show ?thesis by (simp add: shifted_angle_def a)
qed

section \<open>Evaluating the float64 encoder\<close>

text \<open>
  A real \<open>x\<close> with \<open>2\<^sup>5\<^sup>2 \<le> \<bar>x\<bar> \<cdot> 2\<^sup>n < 2\<^sup>5\<^sup>3\<close> lies in the binade whose grid is \<open>2\<^sup>-\<^sup>n\<close>.
\<close>

lemma rnd64_scaled:
  assumes lo: "2 ^ 52 \<le> \<bar>x\<bar> * 2 ^ n" and hi: "\<bar>x\<bar> * 2 ^ n < 2 ^ 53" and n: "n \<le> 1074"
  shows "rnd64 x = of_int (rne (x * 2 ^ n)) / 2 ^ n"
proof -
  have x0: "x \<noteq> 0" using lo by auto
  have pos: "0 < \<bar>x\<bar>" using x0 by simp
  have a: "2 powr (52 - real n) \<le> \<bar>x\<bar>"
  proof -
    have "2 powr (52 - real n) = 2 ^ 52 / 2 ^ n"
      by (simp add: powr_diff powr_realpow)
    also have "\<dots> \<le> \<bar>x\<bar>" using lo by (simp add: field_simps)
    finally show ?thesis .
  qed
  have b: "\<bar>x\<bar> < 2 powr (52 - real n + 1)"
  proof -
    have "\<bar>x\<bar> < 2 ^ 53 / 2 ^ n" using hi by (simp add: field_simps)
    also have "\<dots> = 2 powr (53 - real n)" by (simp add: powr_diff powr_realpow)
    finally show ?thesis by (simp add: algebra_simps)
  qed
  have "\<lfloor>log 2 \<bar>x\<bar>\<rfloor> = 52 - int n"
    using a b pos floor_log_eq_powr_iff [of "\<bar>x\<bar>" 2 "52 - int n"] by simp
  then have e: "max (\<lfloor>log 2 \<bar>x\<bar>\<rfloor> - 52) (- 1074) = - int n" using n by simp
  have p: "(2::real) powi (- int n) = 1 / 2 ^ n"
    by (simp add: power_int_minus field_simps)
  show ?thesis unfolding rnd64_def Let_def e p using x0 by simp
qed

text \<open>
  The doubles \<open>2947599063345183 / 2\<^sup>4\<^sup>9\<close> (printed \<^verbatim>\<open>5.235987755982988\<close>),
  \<open>6779477845693921 / 2\<^sup>5\<^sup>0\<close> (\<^verbatim>\<open>23*np.pi/12\<close>) and \<open>2652839157010665 / 2\<^sup>5\<^sup>0\<close>
  (\<^verbatim>\<open>3*np.pi/4\<close>), and the double sum of the last one and \<^verbatim>\<open>2*np.pi\<close>, evaluated
  operation by operation.
\<close>

lemma f64_at_5pi3_3:
  "encode_angle2class_np_f64 (2947599063345183 / 2 ^ 49) 3 = Inr (3, Fin (- (4503599627370499 / 2 ^ 53)))"
proof -
  have f1: "np_mod64 (2947599063345183 / 2 ^ 49) (2 * np_pi) = 2947599063345183 / 2 ^ 49"
    by (simp add: np_mod64_def fmod_def rtrunc_def np_pi_def)
  have f2: "(\<not> (0 \<le> (2947599063345183 / 2 ^ 49::real) \<and> 2947599063345183 / 2 ^ 49 \<le> 2 * np_pi)) = False"
    by (simp add: np_pi_def)
  have f3: "rnd64 (of_int 3) = 3"
    by (subst rnd64_scaled [where n = 51]) (simp_all add: rne_def np_pi_def)
  have f4: "round64 (of_int 3) = Fin 3"
    unfolding round64_def f3 by simp
  have f5: "((3::real) = 0) = False"
    by simp
  have f6: "rnd64 (2 * np_pi / 3) = 4716158501352293 / 2 ^ 51"
    by (subst rnd64_scaled [where n = 51]) (simp_all add: rne_def np_pi_def)
  have f7: "rnd64 (4716158501352293 / 2 ^ 51 / 2) = 4716158501352293 / 2 ^ 52"
    by (subst rnd64_scaled [where n = 52]) (simp_all add: rne_def np_pi_def)
  have f8: "rnd64 (2947599063345183 / 2 ^ 49 + (4716158501352293 / 2 ^ 52)) = 7074237752028439 / 2 ^ 50"
    by (subst rnd64_scaled [where n = 50]) (simp_all add: rne_def np_pi_def)
  have f9: "np_mod64 (7074237752028439 / 2 ^ 50) (2 * np_pi) = 7074237752028439 / 2 ^ 50"
    by (simp add: np_mod64_def fmod_def rtrunc_def np_pi_def)
  have f10: "rnd64 ((7074237752028439 / 2 ^ 50) / (4716158501352293 / 2 ^ 51)) = 3"
    by (subst rnd64_scaled [where n = 51]) (simp_all add: rne_def np_pi_def)
  have f11: "round64 ((7074237752028439 / 2 ^ 50) / (4716158501352293 / 2 ^ 51)) = Fin 3"
    unfolding round64_def f10 by simp
  have f12: "astype_int64 (Fin 3) = 3"
    by (simp add: astype_int64_def rtrunc_def)
  have f13: "rnd64 (of_int 3) = 3"
    by (subst rnd64_scaled [where n = 51]) (simp_all add: rne_def np_pi_def)
  have f14: "rnd64 (3 * (4716158501352293 / 2 ^ 51)) = 884279719003555 / 2 ^ 47"
    by (subst rnd64_scaled [where n = 50]) (simp_all add: rne_def np_pi_def)
  have f15: "rnd64 (884279719003555 / 2 ^ 47 + (4716158501352293 / 2 ^ 52)) = 8253277377366513 / 2 ^ 50"
    by (subst rnd64_scaled [where n = 50]) (simp_all add: rne_def np_pi_def)
  have f16: "rnd64 (7074237752028439 / 2 ^ 50 - (8253277377366513 / 2 ^ 50)) = - (589519812669037 / 2 ^ 49)"
    by (subst rnd64_scaled [where n = 52]) (simp_all add: rne_def np_pi_def)
  have f17: "rnd64 ((- (589519812669037 / 2 ^ 49)) / (4716158501352293 / 2 ^ 51)) = - (4503599627370499 / 2 ^ 53)"
    by (subst rnd64_scaled [where n = 53]) (simp_all add: rne_def np_pi_def)
  have f18: "round64 ((- (589519812669037 / 2 ^ 49)) / (4716158501352293 / 2 ^ 51)) = Fin (- (4503599627370499 / 2 ^ 53))"
    unfolding round64_def f17 by simp
  show ?thesis
    unfolding encode_angle2class_np_f64_def Let_def
    by (simp only: f1 f2 f4 f5 f6 f7 f8 f9 f11 f12 f13 f14 f15 f16 f18 fval.case if_False)
qed

lemma f64_at_23pi12_12:
  "encode_angle2class_np_f64 (6779477845693921 / 2 ^ 50) 12 = Inr (12, Fin (- (4503599627370507 / 2 ^ 53)))"
proof -
  have f1: "np_mod64 (6779477845693921 / 2 ^ 50) (2 * np_pi) = 6779477845693921 / 2 ^ 50"
    by (simp add: np_mod64_def fmod_def rtrunc_def np_pi_def)
  have f2: "(\<not> (0 \<le> (6779477845693921 / 2 ^ 50::real) \<and> 6779477845693921 / 2 ^ 50 \<le> 2 * np_pi)) = False"
    by (simp add: np_pi_def)
  have f3: "rnd64 (of_int 12) = 12"
    by (subst rnd64_scaled [where n = 49]) (simp_all add: rne_def np_pi_def)
  have f4: "round64 (of_int 12) = Fin 12"
    unfolding round64_def f3 by simp
  have f5: "((12::real) = 0) = False"
    by simp
  have f6: "rnd64 (2 * np_pi / 12) = 4716158501352293 / 2 ^ 53"
    by (subst rnd64_scaled [where n = 53]) (simp_all add: rne_def np_pi_def)
  have f7: "rnd64 (4716158501352293 / 2 ^ 53 / 2) = 4716158501352293 / 2 ^ 54"
    by (subst rnd64_scaled [where n = 54]) (simp_all add: rne_def np_pi_def)
  have f8: "rnd64 (6779477845693921 / 2 ^ 50 + (4716158501352293 / 2 ^ 54)) = 7074237752028439 / 2 ^ 50"
    by (subst rnd64_scaled [where n = 50]) (simp_all add: rne_def np_pi_def)
  have f9: "np_mod64 (7074237752028439 / 2 ^ 50) (2 * np_pi) = 7074237752028439 / 2 ^ 50"
    by (simp add: np_mod64_def fmod_def rtrunc_def np_pi_def)
  have f10: "rnd64 ((7074237752028439 / 2 ^ 50) / (4716158501352293 / 2 ^ 53)) = 12"
    by (subst rnd64_scaled [where n = 49]) (simp_all add: rne_def np_pi_def)
  have f11: "round64 ((7074237752028439 / 2 ^ 50) / (4716158501352293 / 2 ^ 53)) = Fin 12"
    unfolding round64_def f10 by simp
  have f12: "astype_int64 (Fin 12) = 12"
    by (simp add: astype_int64_def rtrunc_def)
  have f13: "rnd64 (of_int 12) = 12"
    by (subst rnd64_scaled [where n = 49]) (simp_all add: rne_def np_pi_def)
  have f14: "rnd64 (12 * (4716158501352293 / 2 ^ 53)) = 884279719003555 / 2 ^ 47"
    by (subst rnd64_scaled [where n = 50]) (simp_all add: rne_def np_pi_def)
  have f15: "rnd64 (884279719003555 / 2 ^ 47 + (4716158501352293 / 2 ^ 54)) = 3684498829181479 / 2 ^ 49"
    by (subst rnd64_scaled [where n = 50]) (simp_all add: rne_def np_pi_def)
  have f16: "rnd64 (7074237752028439 / 2 ^ 50 - (3684498829181479 / 2 ^ 49)) = - (294759906334519 / 2 ^ 50)"
    by (subst rnd64_scaled [where n = 54]) (simp_all add: rne_def np_pi_def)
  have f17: "rnd64 ((- (294759906334519 / 2 ^ 50)) / (4716158501352293 / 2 ^ 53)) = - (4503599627370507 / 2 ^ 53)"
    by (subst rnd64_scaled [where n = 53]) (simp_all add: rne_def np_pi_def)
  have f18: "round64 ((- (294759906334519 / 2 ^ 50)) / (4716158501352293 / 2 ^ 53)) = Fin (- (4503599627370507 / 2 ^ 53))"
    unfolding round64_def f17 by simp
  show ?thesis
    unfolding encode_angle2class_np_f64_def Let_def
    by (simp only: f1 f2 f4 f5 f6 f7 f8 f9 f11 f12 f13 f14 f15 f16 f18 fval.case if_False)
qed



section \<open>Claims on the angle encoder\<close>

text \<open>
  C1. The claim: for every angle and every \<open>num_class \<ge> 1\<close> the residual lies in
  \<open>[0, 1]\<close>, as the comment of line 19 says. The code subtracts the centre of the bin,
  so the residual is negative in the lower half of every bin: for the angle \<open>\<pi>\<close> and
  one class, and for the angle \<open>7\<pi>/4\<close> and four classes, it returns the residual
  \<open>-1/2\<close>.
\<close>

theorem residual_negative_half:
  "encode_angle2class_np pi 1 = Inr (0, - 1 / 2)
   \<and> encode_angle2class_np (7 * pi / 4) 4 = Inr (0, - 1 / 2)"
  using encode_angle2class_np_eq [of 1 pi] encode_angle2class_np_eq [of 4 "7 * pi / 4"]
  by (simp add: shifted_angle_pi_1 shifted_angle_7pi4_4)

text \<open>
  C2, as stated: the angle \<open>0\<close> with four classes gives class \<open>0\<close> and residual
  \<open>0.5\<close>, and the angle \<open>\<pi>\<close> gives class \<open>2\<close> and residual \<open>0.5\<close>. This is false:
  both angles are the centres of their bins.
\<close>

theorem scenario_residual_not_half:
  "\<not> (encode_angle2class_np 0 4 = Inr (0, 1 / 2)
      \<and> encode_angle2class_np pi 4 = Inr (2, 1 / 2))"
  using encode_angle2class_np_eq [of 4 0] by (simp add: shifted_angle_0_4)

text \<open>
  C2, amended: the angle \<open>0\<close> with four classes gives class \<open>0\<close> and residual \<open>0\<close>,
  and the angle \<open>\<pi>\<close> gives class \<open>2\<close> and residual \<open>0\<close>.
\<close>

theorem scenario_bin_centres:
  "encode_angle2class_np 0 4 = Inr (0, 0) \<and> encode_angle2class_np pi 4 = Inr (2, 0)"
proof -
  have "\<lfloor>5 / 2 :: real\<rfloor> = 2" by linarith
  then show ?thesis
    using encode_angle2class_np_eq [of 4 0] encode_angle2class_np_eq [of 4 pi]
    by (simp add: shifted_angle_0_4 shifted_angle_pi_4)
qed

text \<open>
  In exact real arithmetic the function returns, for every angle and every
  \<open>num_class \<ge> 1\<close>, a class between \<open>0\<close> and \<open>num_class - 1\<close>.
\<close>

lemma class_id_in_range_exact:
  assumes "1 \<le> num_class"
  shows "\<exists>class_id residual.
           encode_angle2class_np angle num_class = Inr (class_id, residual)
           \<and> 0 \<le> class_id \<and> class_id \<le> num_class - 1"
proof -
  let ?apc = "2 * pi / real_of_int num_class"
  let ?s = "shifted_angle angle num_class"
  have n: "0 < real_of_int num_class" using assms by simp
  have apc: "0 < ?apc" using n by simp
  have q: "0 \<le> ?s / ?apc"
    using shifted_angle_bounds(1) [of angle num_class] apc by (intro divide_nonneg_pos)
  have "?s / ?apc = ?s * real_of_int num_class / (2 * pi)" by simp
  also have "\<dots> < real_of_int num_class"
    using shifted_angle_bounds(2) [of angle num_class] n
    by (simp add: pos_divide_less_eq mult.commute)
  finally have u: "?s / ?apc < real_of_int num_class" .
  from q have "0 \<le> \<lfloor>?s / ?apc\<rfloor>" by simp
  moreover from u have "\<lfloor>?s / ?apc\<rfloor> < num_class" by (simp add: floor_less_iff)
  ultimately have "0 \<le> \<lfloor>?s / ?apc\<rfloor> \<and> \<lfloor>?s / ?apc\<rfloor> \<le> num_class - 1" by simp
  then show ?thesis using encode_angle2class_np_eq [OF assms, of angle] by blast
qed

text \<open>
  C4. The claim: for every angle and every \<open>num_class \<ge> 1\<close> the class is an integer
  between \<open>0\<close> and \<open>num_class - 1\<close>. In float64 the code returns the class
  \<open>num_class\<close> itself at the upper edge of the last bin: class \<open>3\<close> for the angle
  \<^verbatim>\<open>5.235987755982988\<close> and three classes, class \<open>12\<close> for the angle \<^verbatim>\<open>23*np.pi/12\<close>
  and twelve classes. The shifted angle is the double just below \<open>2\<pi>\<close>, and its
  quotient by the bin width rounds up to \<open>num_class\<close>.
\<close>

theorem class_id_equals_num_class:
  "encode_angle2class_np_f64 (2947599063345183 / 2 ^ 49) 3 = Inr (3, Fin (- (4503599627370499 / 2 ^ 53)))
   \<and> encode_angle2class_np_f64 (6779477845693921 / 2 ^ 50) 12 = Inr (12, Fin (- (4503599627370507 / 2 ^ 53)))"
  by (rule conjI [OF f64_at_5pi3_3 f64_at_23pi12_12])



text \<open>
  C9. For every real angle the normalised angle lies in \<open>[0, 2\<pi>]\<close>, so the function
  never fails with the assertion error of line 13; it returns a result whenever
  \<open>num_class\<close> is not zero.
\<close>

theorem assertion_never_fails:
  "encode_angle2class_np angle num_class \<noteq> Inl AssertionError
   \<and> (num_class \<noteq> 0 \<longrightarrow> (\<exists>res. encode_angle2class_np angle num_class = Inr res))"
proof -
  have a1: "0 \<le> np_mod angle (2 * pi)" by (simp add: np_mod_nonneg)
  have a2: "np_mod angle (2 * pi) \<le> 2 * pi"
    using np_mod_less [of "2 * pi" angle] by simp
  show ?thesis
    unfolding encode_angle2class_np_def Let_def
    by (simp only: a1 a2 simp_thms if_False) simp
qed

theorem assertion_never_fails_witness:
  "(3::int) \<noteq> 0 \<and> encode_angle2class_np (- 7) 3 \<noteq> Inl AssertionError
   \<and> (\<exists>res. encode_angle2class_np (- 7) 3 = Inr res)"
  using assertion_never_fails [of "- 7" 3] by simp

text \<open>
  C10. For every angle and every \<open>num_class \<ge> 1\<close> the function returns a residual in
  the half-open interval \<open>[-1/2, 1/2)\<close>: it is centred on zero.
\<close>

theorem residual_centred:
  assumes "1 \<le> num_class"
  shows "\<exists>class_id residual.
           encode_angle2class_np angle num_class = Inr (class_id, residual)
           \<and> - 1 / 2 \<le> residual \<and> residual < 1 / 2"
proof -
  let ?q = "shifted_angle angle num_class / (2 * pi / of_int num_class)"
  have "of_int \<lfloor>?q\<rfloor> \<le> ?q" and "?q < of_int \<lfloor>?q\<rfloor> + 1" by linarith+
  then have "- 1 / 2 \<le> ?q - of_int \<lfloor>?q\<rfloor> - 1 / 2"
    and "?q - of_int \<lfloor>?q\<rfloor> - 1 / 2 < 1 / 2"
    by linarith+
  then show ?thesis using encode_angle2class_np_eq [OF assms, of angle] by blast
qed

theorem residual_centred_witness:
  "(1::int) \<le> 4 \<and>
   (\<exists>class_id residual. encode_angle2class_np (3 / 2) 4 = Inr (class_id, residual)
      \<and> - 1 / 2 \<le> residual \<and> residual < 1 / 2)"
  using residual_centred [of 4 "3 / 2"] by simp

section \<open>The box encoders box by box\<close>

lemmas tensor_defs = unstack_def split3_def stack2_def stack3_def concatenate2_def
  concatenate3_def tnorm_def linalg_norm_def tsub_def tdiv_def tlog_def tsub3_def tdiv3_def
  thalf3_def index1_def zeros_like_def vmap2_def

lemma encode_log_anchor_at:
  "fst (encode_log_anchor gt_ctr gt_offset anchor_ctr anchor_offset) i =
     (case gt_ctr i of (gt_x, gt_y, gt_z) \<Rightarrow>
      case anchor_ctr i of (anchor_x, anchor_y, anchor_z) \<Rightarrow>
      case anchor_offset i of (anchor_l, anchor_h, anchor_w) \<Rightarrow>
        (fdiv (gt_x - anchor_x) (sqrt (anchor_l\<^sup>2 + anchor_w\<^sup>2)),
         fdiv (gt_y - anchor_y) anchor_h,
         fdiv (gt_z - anchor_z) (sqrt (anchor_l\<^sup>2 + anchor_w\<^sup>2))))"
  "snd (encode_log_anchor gt_ctr gt_offset anchor_ctr anchor_offset) i =
     (case gt_offset i of (gt_l, gt_h, gt_w) \<Rightarrow>
      case anchor_offset i of (anchor_l, anchor_h, anchor_w) \<Rightarrow>
        (flog (fdiv gt_l anchor_l), flog (fdiv gt_h anchor_h), flog (fdiv gt_w anchor_w)))"
  by (simp_all add: encode_log_anchor_def tensor_defs split: prod.splits)

lemma encode_log_anchor_np_at:
  "fst (encode_log_anchor_np gt_ctr gt_offset anchor_ctr anchor_offset) i =
     (case gt_ctr i of (gt_x, gt_y, gt_z) \<Rightarrow>
      case anchor_ctr i of (anchor_x, anchor_y, anchor_z) \<Rightarrow>
      case anchor_offset i of (anchor_l, anchor_h, anchor_w) \<Rightarrow>
        (fdiv (gt_x - anchor_x) (sqrt (anchor_l\<^sup>2 + anchor_w\<^sup>2)),
         fdiv (gt_y - anchor_y) anchor_h,
         fdiv (gt_z - anchor_z) (sqrt (anchor_l\<^sup>2 + anchor_w\<^sup>2))))"
  "snd (encode_log_anchor_np gt_ctr gt_offset anchor_ctr anchor_offset) i =
     (case gt_offset i of (gt_l, gt_h, gt_w) \<Rightarrow>
      case anchor_offset i of (anchor_l, anchor_h, anchor_w) \<Rightarrow>
        (flog (fdiv gt_l anchor_l), flog (fdiv gt_h anchor_h), flog (fdiv gt_w anchor_w)))"
  by (simp_all add: encode_log_anchor_np_def tensor_defs split: prod.splits)

lemma fdiv_nonzero: "y \<noteq> 0 \<Longrightarrow> fdiv x y = Fin (x / y)"
  by (simp add: fdiv_def)

lemma flog_Fin_pos: "0 < x \<Longrightarrow> flog (Fin x) = Fin (ln x)"
  by (simp add: flog_def)

lemma diagonal_nonzero:
  assumes "0 < (l::real)"
  shows "sqrt (l\<^sup>2 + w\<^sup>2) \<noteq> 0"
proof -
  from assms have "0 < l\<^sup>2" by simp
  moreover have "0 \<le> w\<^sup>2" by simp
  ultimately have "0 < l\<^sup>2 + w\<^sup>2" by (rule add_pos_nonneg)
  then have "0 < sqrt (l\<^sup>2 + w\<^sup>2)" by (simp only: real_sqrt_gt_0_iff)
  then show ?thesis by linarith
qed

section \<open>Claims on the box encoders\<close>

text \<open>
  C3. On the same inputs the TensorFlow and the NumPy implementation return the same
  outputs: \<^verbatim>\<open>encode_log_anchor\<close> equals \<^verbatim>\<open>encode_log_anchor_np\<close> and
  \<^verbatim>\<open>encode_dist_anchor_free\<close> equals \<^verbatim>\<open>encode_dist_anchor_free_np\<close> (in exact
  arithmetic, and also where an output is not finite).
\<close>

theorem backends_agree:
  "encode_log_anchor gt_ctr gt_offset anchor_ctr anchor_offset
     = encode_log_anchor_np gt_ctr gt_offset anchor_ctr anchor_offset
   \<and> encode_dist_anchor_free gt_ctr gt_offset anchor_ctr opt_anchor_offset
     = encode_dist_anchor_free_np gt_ctr gt_offset anchor_ctr opt_anchor_offset"
proof
  show "encode_log_anchor gt_ctr gt_offset anchor_ctr anchor_offset
          = encode_log_anchor_np gt_ctr gt_offset anchor_ctr anchor_offset"
    by (rule prod_eqI; rule ext) (simp_all only: encode_log_anchor_at encode_log_anchor_np_at)
  show "encode_dist_anchor_free gt_ctr gt_offset anchor_ctr opt_anchor_offset
          = encode_dist_anchor_free_np gt_ctr gt_offset anchor_ctr opt_anchor_offset"
    by (simp only: encode_dist_anchor_free_def encode_dist_anchor_free_np_def)
qed

text \<open>
  C6. At every box \<open>i\<close> whose ground-truth and anchor dimensions are strictly positive,
  both log-anchor encoders return the finite values
  \<open>encoded_ctr = ((gt_x - anchor_x)/anchor_d, (gt_y - anchor_y)/anchor_h,
  (gt_z - anchor_z)/anchor_d)\<close> with \<open>anchor_d = sqrt (anchor_l\<^sup>2 + anchor_w\<^sup>2)\<close> and
  \<open>encoded_offset = (ln (gt_l/anchor_l), ln (gt_h/anchor_h), ln (gt_w/anchor_w))\<close>.
\<close>

theorem log_anchor_formula:
  assumes gt: "gt_offset i = (gt_l, gt_h, gt_w)" "0 < gt_l" "0 < gt_h" "0 < gt_w"
    and an: "anchor_offset i = (anchor_l, anchor_h, anchor_w)"
      "0 < anchor_l" "0 < anchor_h" "0 < anchor_w"
    and gc: "gt_ctr i = (gt_x, gt_y, gt_z)"
    and ac: "anchor_ctr i = (anchor_x, anchor_y, anchor_z)"
  shows "(let anchor_d = sqrt (anchor_l\<^sup>2 + anchor_w\<^sup>2);
              encoded_ctr = (Fin ((gt_x - anchor_x) / anchor_d),
                             Fin ((gt_y - anchor_y) / anchor_h),
                             Fin ((gt_z - anchor_z) / anchor_d));
              encoded_offset = (Fin (ln (gt_l / anchor_l)), Fin (ln (gt_h / anchor_h)),
                                Fin (ln (gt_w / anchor_w)))
          in fst (encode_log_anchor_np gt_ctr gt_offset anchor_ctr anchor_offset) i
               = encoded_ctr
           \<and> snd (encode_log_anchor_np gt_ctr gt_offset anchor_ctr anchor_offset) i
               = encoded_offset
           \<and> fst (encode_log_anchor gt_ctr gt_offset anchor_ctr anchor_offset) i
               = encoded_ctr
           \<and> snd (encode_log_anchor gt_ctr gt_offset anchor_ctr anchor_offset) i
               = encoded_offset)"
proof -
  have d0: "sqrt (anchor_l\<^sup>2 + anchor_w\<^sup>2) \<noteq> 0" using an(2) by (rule diagonal_nonzero)
  have l0: "anchor_l \<noteq> 0" using an(2) by simp
  have h0: "anchor_h \<noteq> 0" using an(3) by simp
  have w0: "anchor_w \<noteq> 0" using an(4) by simp
  have l: "flog (Fin (gt_l / anchor_l)) = Fin (ln (gt_l / anchor_l))"
    using gt(2) an(2) by (intro flog_Fin_pos divide_pos_pos)
  have h: "flog (Fin (gt_h / anchor_h)) = Fin (ln (gt_h / anchor_h))"
    using gt(3) an(3) by (intro flog_Fin_pos divide_pos_pos)
  have w: "flog (Fin (gt_w / anchor_w)) = Fin (ln (gt_w / anchor_w))"
    using gt(4) an(4) by (intro flog_Fin_pos divide_pos_pos)
  show ?thesis
    unfolding Let_def encode_log_anchor_np_at encode_log_anchor_at
    by (simp add: gt(1) an(1) gc ac l h w fdiv_nonzero [OF d0] fdiv_nonzero [OF h0]
        fdiv_nonzero [OF l0] fdiv_nonzero [OF w0])
qed

theorem log_anchor_formula_witness:
  "(0::real) < 6 \<and> (0::real) < 4 \<and> (0::real) < 8 \<and> (0::real) < 3 \<and> (0::real) < 2
   \<and> fst (encode_log_anchor_np (\<lambda>_::unit. (1, 2, 3)) (\<lambda>_. (6, 4, 8)) (\<lambda>_. (0, 0, 0))
            (\<lambda>_. (3, 2, 4))) ()
       = (Fin (1 / 5), Fin 1, Fin (3 / 5))
   \<and> snd (encode_log_anchor_np (\<lambda>_::unit. (1, 2, 3)) (\<lambda>_. (6, 4, 8)) (\<lambda>_. (0, 0, 0))
            (\<lambda>_. (3, 2, 4))) ()
       = (Fin (ln 2), Fin (ln 2), Fin (ln 2))
   \<and> fst (encode_log_anchor (\<lambda>_::unit. (1, 2, 3)) (\<lambda>_. (6, 4, 8)) (\<lambda>_. (0, 0, 0))
            (\<lambda>_. (3, 2, 4))) ()
       = (Fin (1 / 5), Fin 1, Fin (3 / 5))
   \<and> snd (encode_log_anchor (\<lambda>_::unit. (1, 2, 3)) (\<lambda>_. (6, 4, 8)) (\<lambda>_. (0, 0, 0))
            (\<lambda>_. (3, 2, 4))) ()
       = (Fin (ln 2), Fin (ln 2), Fin (ln 2))"
proof -
  have "sqrt 25 = sqrt (5\<^sup>2)" by simp
  also have "\<dots> = \<bar>5\<bar>" by (rule real_sqrt_abs)
  finally have s: "sqrt 25 = 5" by simp
  show ?thesis
    using log_anchor_formula [of "\<lambda>_::unit. (6, 4, 8)" "()" 6 4 8 "\<lambda>_. (3, 2, 4)" 3 2 4
        "\<lambda>_. (1, 2, 3)" 1 2 3 "\<lambda>_. (0, 0, 0)" 0 0 0]
    by (simp add: Let_def s)
qed

text \<open>
  C7. For all inputs both anchor-free encoders return
  \<open>target_half_offset = gt_offset / 2\<close> and
  \<open>encoded_ctr = gt_ctr - (0, gt_h / 2, 0) - anchor_ctr\<close>, where \<open>gt_h\<close> is the
  component of index 1 of \<open>gt_offset\<close>; the argument \<open>anchor_offset\<close> has no influence
  on the outputs.
\<close>

theorem anchor_free_formula:
  "(let encoded_ctr = (\<lambda>i. case gt_ctr i of (gt_x, gt_y, gt_z) \<Rightarrow>
                            case gt_offset i of (gt_l, gt_h, gt_w) \<Rightarrow>
                            case anchor_ctr i of (anchor_x, anchor_y, anchor_z) \<Rightarrow>
                              (gt_x - 0 - anchor_x, gt_y - gt_h / 2 - anchor_y,
                               gt_z - 0 - anchor_z));
        target_half_offset = (\<lambda>i. case gt_offset i of (gt_l, gt_h, gt_w) \<Rightarrow>
                                    (gt_l / 2, gt_h / 2, gt_w / 2))
    in encode_dist_anchor_free_np gt_ctr gt_offset anchor_ctr anchor_offset
         = (encoded_ctr, target_half_offset)
     \<and> encode_dist_anchor_free gt_ctr gt_offset anchor_ctr anchor_offset
         = (encoded_ctr, target_half_offset)
     \<and> encode_dist_anchor_free_np gt_ctr gt_offset anchor_ctr anchor_offset'
         = encode_dist_anchor_free_np gt_ctr gt_offset anchor_ctr anchor_offset
     \<and> encode_dist_anchor_free gt_ctr gt_offset anchor_ctr anchor_offset'
         = encode_dist_anchor_free gt_ctr gt_offset anchor_ctr anchor_offset)"
  by (auto simp add: encode_dist_anchor_free_np_def encode_dist_anchor_free_def tensor_defs
      fun_eq_iff split: prod.splits)

text \<open>
  C8. At every box \<open>i\<close> whose anchor dimensions are all nonzero, the distance-anchor
  encoder returns \<open>encoded_ctr = gt_ctr - anchor_ctr\<close> and the finite values
  \<open>encoded_offset = (gt_offset - anchor_offset) / anchor_offset\<close>, component by
  component; and when the ground truth is the anchor itself, both outputs are zero.
\<close>

theorem dist_anchor_formula:
  assumes go: "gt_offset i = (gt_l, gt_h, gt_w)"
    and an: "anchor_offset i = (anchor_l, anchor_h, anchor_w)"
      "anchor_l \<noteq> 0" "anchor_h \<noteq> 0" "anchor_w \<noteq> 0"
    and gc: "gt_ctr i = (gt_x, gt_y, gt_z)"
    and ac: "anchor_ctr i = (anchor_x, anchor_y, anchor_z)"
  shows "fst (encode_dist_anchor gt_ctr gt_offset anchor_ctr anchor_offset) i =
           (gt_x - anchor_x, gt_y - anchor_y, gt_z - anchor_z)
       \<and> snd (encode_dist_anchor gt_ctr gt_offset anchor_ctr anchor_offset) i =
           (Fin ((gt_l - anchor_l) / anchor_l), Fin ((gt_h - anchor_h) / anchor_h),
            Fin ((gt_w - anchor_w) / anchor_w))
       \<and> fst (encode_dist_anchor anchor_ctr anchor_offset anchor_ctr anchor_offset) i
           = (0, 0, 0)
       \<and> snd (encode_dist_anchor anchor_ctr anchor_offset anchor_ctr anchor_offset) i
           = (Fin 0, Fin 0, Fin 0)"
  using assms by (simp add: encode_dist_anchor_def tensor_defs fdiv_nonzero)

theorem dist_anchor_formula_witness:
  "(1::real) \<noteq> 0 \<and> (2::real) \<noteq> 0 \<and> (3::real) \<noteq> 0
   \<and> fst (encode_dist_anchor (\<lambda>_::unit. (1, 2, 3)) (\<lambda>_. (2, 4, 6)) (\<lambda>_. (0, 0, 0))
            (\<lambda>_. (1, 2, 3))) ()
       = (1, 2, 3)
   \<and> snd (encode_dist_anchor (\<lambda>_::unit. (1, 2, 3)) (\<lambda>_. (2, 4, 6)) (\<lambda>_. (0, 0, 0))
            (\<lambda>_. (1, 2, 3))) ()
       = (Fin 1, Fin 1, Fin 1)
   \<and> fst (encode_dist_anchor (\<lambda>_::unit. (0, 0, 0)) (\<lambda>_. (1, 2, 3)) (\<lambda>_. (0, 0, 0))
            (\<lambda>_. (1, 2, 3))) ()
       = (0, 0, 0)
   \<and> snd (encode_dist_anchor (\<lambda>_::unit. (0, 0, 0)) (\<lambda>_. (1, 2, 3)) (\<lambda>_. (0, 0, 0))
            (\<lambda>_. (1, 2, 3))) ()
       = (Fin 0, Fin 0, Fin 0)"
  using dist_anchor_formula [of "\<lambda>_::unit. (2, 4, 6)" "()" 2 4 6 "\<lambda>_. (1, 2, 3)" 1 2 3
      "\<lambda>_. (1, 2, 3)" 1 2 3 "\<lambda>_. (0, 0, 0)" 0 0 0]
  by simp

end
